theory Spec2Isabelle
  imports Complex_Main "HOL-Library.Word"
begin

section \<open>JavaScript numbers and values\<close>

text \<open>
  The widget computes with JavaScript numbers. A finite number is modelled by a real, so
  rounding and overflow of doubles are idealised away; the three special values that
  a division by zero produces are kept, because the widget divides the canvas width by the
  width of the selection. The two zeros are not told apart: a zero divisor counts as +0.
\<close>

datatype num = Fin real | PInf | NInf | NaN

fun num_add :: "num \<Rightarrow> num \<Rightarrow> num" where
  "num_add (Fin a) (Fin b) = Fin (a + b)"
| "num_add NaN _ = NaN"
| "num_add _ NaN = NaN"
| "num_add PInf NInf = NaN"
| "num_add NInf PInf = NaN"
| "num_add PInf _ = PInf"
| "num_add _ PInf = PInf"
| "num_add NInf _ = NInf"
| "num_add _ NInf = NInf"

fun num_neg :: "num \<Rightarrow> num" where
  "num_neg (Fin a) = Fin (- a)"
| "num_neg PInf = NInf"
| "num_neg NInf = PInf"
| "num_neg NaN = NaN"

fun num_mul :: "num \<Rightarrow> num \<Rightarrow> num" where
  "num_mul (Fin a) (Fin b) = Fin (a * b)"
| "num_mul NaN _ = NaN"
| "num_mul _ NaN = NaN"
| "num_mul PInf (Fin b) = (if 0 < b then PInf else if b < 0 then NInf else NaN)"
| "num_mul NInf (Fin b) = (if 0 < b then NInf else if b < 0 then PInf else NaN)"
| "num_mul (Fin a) PInf = (if 0 < a then PInf else if a < 0 then NInf else NaN)"
| "num_mul (Fin a) NInf = (if 0 < a then NInf else if a < 0 then PInf else NaN)"
| "num_mul PInf PInf = PInf"
| "num_mul NInf NInf = PInf"
| "num_mul PInf NInf = NInf"
| "num_mul NInf PInf = NInf"

fun num_div :: "num \<Rightarrow> num \<Rightarrow> num" where
  "num_div (Fin a) (Fin b) =
     (if b \<noteq> 0 then Fin (a / b)
      else if 0 < a then PInf else if a < 0 then NInf else NaN)"
| "num_div NaN _ = NaN"
| "num_div _ NaN = NaN"
| "num_div (Fin a) PInf = Fin 0"
| "num_div (Fin a) NInf = Fin 0"
| "num_div PInf (Fin b) = (if 0 \<le> b then PInf else NInf)"
| "num_div NInf (Fin b) = (if 0 \<le> b then NInf else PInf)"
| "num_div PInf PInf = NaN"
| "num_div PInf NInf = NaN"
| "num_div NInf PInf = NaN"
| "num_div NInf NInf = NaN"

fun num_lt :: "num \<Rightarrow> num \<Rightarrow> bool" where
  "num_lt (Fin a) (Fin b) = (a < b)"
| "num_lt NaN _ = False"
| "num_lt _ NaN = False"
| "num_lt _ NInf = False"
| "num_lt PInf _ = False"
| "num_lt NInf _ = True"
| "num_lt _ PInf = True"

fun num_le :: "num \<Rightarrow> num \<Rightarrow> bool" where
  "num_le (Fin a) (Fin b) = (a \<le> b)"
| "num_le NaN _ = False"
| "num_le _ NaN = False"
| "num_le NInf _ = True"
| "num_le _ PInf = True"
| "num_le _ NInf = False"
| "num_le PInf _ = False"

text \<open>
  The arithmetic and comparison operators of the source are written with the usual
  symbols: \<open>+\<close>, \<open>-\<close>, \<open>*\<close>, \<open>/\<close>, \<open><\<close>, \<open>\<le>\<close> on \<^typ>\<open>num\<close> are the functions above
  (\<open>a > b\<close> is \<open>b < a\<close>, as in JavaScript, and every comparison with NaN is false).
\<close>

instantiation num :: "{plus, minus, times, inverse, ord}"
begin

definition plus_num :: "num \<Rightarrow> num \<Rightarrow> num" where
  "plus_num a b = num_add a b"

definition minus_num :: "num \<Rightarrow> num \<Rightarrow> num" where
  "minus_num a b = num_add a (num_neg b)"

definition times_num :: "num \<Rightarrow> num \<Rightarrow> num" where
  "times_num a b = num_mul a b"

definition divide_num :: "num \<Rightarrow> num \<Rightarrow> num" where
  "divide_num a b = num_div a b"

definition inverse_num :: "num \<Rightarrow> num" where
  "inverse_num a = num_div (Fin 1) a"

definition less_num :: "num \<Rightarrow> num \<Rightarrow> bool" where
  "less_num a b = num_lt a b"

definition less_eq_num :: "num \<Rightarrow> num \<Rightarrow> bool" where
  "less_eq_num a b = num_le a b"

instance ..

end

text \<open>
  The values a numeric field of the widget can hold: \<open>undefined\<close> (a property never
  written), \<open>null\<close>, a number, or an object or function (which only arises as a property
  that the text-width cache inherits from \<open>Object.prototype\<close>).
\<close>

datatype jsval = Undefined | Null | Number num | Obj

text \<open>ToNumber: \<open>null\<close> is 0; \<open>undefined\<close>, a function and a plain object are NaN.\<close>

fun ToNumber :: "jsval \<Rightarrow> num" where
  "ToNumber (Number n) = n"
| "ToNumber Null = Fin 0"
| "ToNumber Undefined = NaN"
| "ToNumber Obj = NaN"

text \<open>ToBoolean, as used by \<open>if (v)\<close> and \<open>v || d\<close>.\<close>

fun truthy :: "jsval \<Rightarrow> bool" where
  "truthy Undefined = False"
| "truthy Null = False"
| "truthy (Number (Fin a)) = (a \<noteq> 0)"
| "truthy (Number NaN) = False"
| "truthy (Number PInf) = True"
| "truthy (Number NInf) = True"
| "truthy Obj = True"

definition js_or :: "jsval \<Rightarrow> jsval \<Rightarrow> jsval" where
  "js_or a b = (if truthy a then a else b)"

text \<open>\<open>v != null\<close> (loose inequality): false exactly for \<open>null\<close> and \<open>undefined\<close>.\<close>

fun ne_null :: "jsval \<Rightarrow> bool" where
  "ne_null Undefined = False"
| "ne_null Null = False"
| "ne_null _ = True"


section \<open>Constants of FlameGraph.js\<close>

definition GRAPH_WHEEL_ZOOM_SENSITIVITY :: real where
  "GRAPH_WHEEL_ZOOM_SENSITIVITY = 35 / 100000"

definition GRAPH_WHEEL_SCROLL_SENSITIVITY :: real where
  "GRAPH_WHEEL_SCROLL_SENSITIVITY = 1 / 2"

definition GRAPH_MIN_SELECTION_WIDTH :: real where
  "GRAPH_MIN_SELECTION_WIDTH = 10"

definition TIMELINE_TICKS_MULTIPLE :: "32 word" where
  "TIMELINE_TICKS_MULTIPLE = 5"

definition TIMELINE_TICKS_SPACING_MIN :: real where
  "TIMELINE_TICKS_SPACING_MIN = 75"

definition DOM_DELTA_PIXEL :: nat where "DOM_DELTA_PIXEL = 0"
definition DOM_DELTA_LINE :: nat where "DOM_DELTA_LINE = 1"
definition DOM_DELTA_PAGE :: nat where "DOM_DELTA_PAGE = 2"


section \<open>Data model\<close>

record Block =
  block_x :: real
  block_y :: real
  block_width :: real
  block_height :: real
  block_text :: string

record Layer =
  color :: string
  blocks :: "Block list"

text \<open>\<open>GraphSelection\<close>: \<open>start\<close>, \<open>end\<close>, \<open>offsetY\<close>, and the \<open>maxHeight\<close> that \<open>setData\<close> adds.\<close>

record GraphSelection =
  sel_start :: jsval
  sel_end :: jsval
  maxHeight :: jsval
  offsetY :: jsval

text \<open>
  \<open>GraphSelectionDragger\<close>: \<open>originX\<close>, \<open>originY\<close> and \<open>originOffsetY\<close> are undefined until
  the first mouse-down; \<open>anchor\<close> is a \<open>GraphSelection\<close> of which only \<open>start\<close> and \<open>end\<close>
  are used.
\<close>

record GraphSelectionDragger =
  originX :: jsval
  originY :: jsval
  originOffsetY :: jsval
  anchor_start :: jsval
  anchor_end :: jsval

text \<open>
  The widget instance. \<open>canvasWidth\<close> and \<open>canvasHeight\<close> are \<open>_width\<close> and \<open>_height\<close>;
  \<open>offsetLeft\<close> and \<open>offsetTop\<close> are what \<open>_getContainerOffset\<close> returns (it walks the
  document, which is outside the widget); \<open>viewRange\<close> is \<open>None\<close> while \<open>_viewRange\<close> is
  undefined, that is before the first \<open>setData\<close>; \<open>graphData\<close> likewise for \<open>_data\<close>.
  The cache is a plain object keyed by the text. A string is the list of its code units.
\<close>

record FlameGraph =
  pixelRatio :: real
  canvasWidth :: real
  canvasHeight :: real
  offsetLeft :: real
  offsetTop :: real
  viewRange :: "(jsval \<times> jsval) option"
  graphData :: "Layer list option"
  selection :: GraphSelection
  selectionDragger :: GraphSelectionDragger
  shouldRedraw :: bool
  textWidthsCache :: "string \<rightharpoonup> jsval"
  overflowChar :: string
  overflowCharWidth :: jsval
  averageCharWidth :: jsval

record MouseEvent =
  clientX :: real
  clientY :: real

record WheelEvent =
  wheel_clientX :: real
  deltaX :: real
  deltaY :: real
  deltaMode :: nat

record KeyEvent =
  key_code :: string
  key_key :: string

datatype error = TypeError


section \<open>setData\<close>

text \<open>The inner loop of \<open>setData\<close>, over the blocks of one layer.\<close>

fun setData_blocks :: "jsval \<times> jsval \<times> jsval \<Rightarrow> Block list \<Rightarrow> jsval \<times> jsval \<times> jsval" where
  "setData_blocks acc [] = acc"
| "setData_blocks (minTime, maxTime, maxH) (block # rest) =
     setData_blocks
       (if minTime = Null \<or> Fin (block_x block) < ToNumber minTime
          then Number (Fin (block_x block)) else minTime,
        if maxTime = Null \<or> ToNumber maxTime < Fin (block_x block + block_width block)
          then Number (Fin (block_x block + block_width block)) else maxTime,
        if maxH = Null \<or> ToNumber maxH < Fin (block_y block + block_height block)
          then Number (Fin (block_y block + block_height block)) else maxH)
       rest"

text \<open>The outer loop, over the layers.\<close>

fun setData_layers :: "jsval \<times> jsval \<times> jsval \<Rightarrow> Layer list \<Rightarrow> jsval \<times> jsval \<times> jsval" where
  "setData_layers acc [] = acc"
| "setData_layers acc (layer # rest) = setData_layers (setData_blocks acc (blocks layer)) rest"

definition setData :: "FlameGraph \<Rightarrow> Layer list \<Rightarrow> FlameGraph" where
  "setData g dat =
     (case setData_layers (Null, Null, Null) dat of (minTime, maxTime, maxH) \<Rightarrow>
        g\<lparr>viewRange := Some (minTime, maxTime),
          graphData := Some dat,
          selection :=
            \<lparr>sel_start = js_or minTime (Number (Fin 0)),
             sel_end = js_or maxTime (Number (Fin 1000)),
             maxHeight = js_or maxH (Number (Fin 2000)),
             offsetY = Number (Fin 0)\<rparr>,
          shouldRedraw := True\<rparr>)"

definition getDataWindowStart :: "FlameGraph \<Rightarrow> jsval" where
  "getDataWindowStart g = sel_start (selection g)"

definition getDataWindowEnd :: "FlameGraph \<Rightarrow> jsval" where
  "getDataWindowEnd g = sel_end (selection g)"


section \<open>Text metrics and the label fitter\<close>

text \<open>
  \<open>_textWidthsCache\<close> is created as the object literal \<open>{}\<close>, so reading a key that was
  never stored finds the properties of \<open>Object.prototype\<close>: the functions and accessors
  the language standard puts there (an engine may add more). They are objects, hence
  truthy, and \<open>_getTextWidth\<close> returns them as if they were cached widths.
\<close>

definition Object_prototype_keys :: "string list" where
  "Object_prototype_keys =
     [''constructor'', ''hasOwnProperty'', ''isPrototypeOf'', ''propertyIsEnumerable'',
      ''toLocaleString'', ''toString'', ''valueOf'', ''__proto__'',
      ''__defineGetter__'', ''__defineSetter__'', ''__lookupGetter__'', ''__lookupSetter__'']"

definition empty_object :: "string \<rightharpoonup> jsval" where
  "empty_object = (\<lambda>k. if k \<in> set Object_prototype_keys then Some Obj else None)"

text \<open>
  \<open>_getTextWidth\<close>. \<open>measureText\<close> is \<open>ctx.measureText(text).width\<close> of the drawing
  surface for the font that is current at the call.
\<close>

definition getTextWidth :: "FlameGraph \<Rightarrow> (string \<Rightarrow> real) \<Rightarrow> string \<Rightarrow> jsval \<times> FlameGraph" where
  "getTextWidth g measureText text =
     (let cachedWidth = (case textWidthsCache g text of None \<Rightarrow> Undefined | Some v \<Rightarrow> v)
      in if truthy cachedWidth then (cachedWidth, g)
         else (Number (Fin (measureText text)),
               g\<lparr>textWidthsCache := (textWidthsCache g)(text \<mapsto> Number (Fin (measureText text)))\<rparr>))"

definition getTextWidthApprox :: "FlameGraph \<Rightarrow> string \<Rightarrow> num" where
  "getTextWidthApprox g text = Fin (real (length text)) * ToNumber (averageCharWidth g)"

text \<open>
  The loop of \<open>_calcAverageCharWidth\<close>, from \<open>i\<close> up to \<open>end\<close> (exclusive). The widths
  added are numbers: no one-character string is a key of \<open>Object.prototype\<close>.
\<close>

function calcAverageCharWidth_loop ::
  "FlameGraph \<Rightarrow> (string \<Rightarrow> real) \<Rightarrow> nat \<Rightarrow> nat \<Rightarrow> num \<Rightarrow> num \<times> FlameGraph" where
  "calcAverageCharWidth_loop g measureText i end' letterWidthsSum =
     (if i < end' then
        (case getTextWidth g measureText [char_of i] of (w, g') \<Rightarrow>
           calcAverageCharWidth_loop g' measureText (i + 1) end' (letterWidthsSum + ToNumber w))
      else (letterWidthsSum, g))"
  by pat_completeness auto
termination
  by (relation "measure (\<lambda>(g, m, i, e, s). e - i)") auto

declare calcAverageCharWidth_loop.simps [simp del]

definition calcAverageCharWidth :: "FlameGraph \<Rightarrow> (string \<Rightarrow> real) \<Rightarrow> num \<times> FlameGraph" where
  "calcAverageCharWidth g measureText =
     (case calcAverageCharWidth_loop g measureText 32 123 (Fin 0) of (letterWidthsSum, g') \<Rightarrow>
        (letterWidthsSum / Fin (123 - 32), g'))"

text \<open>
  The trimming loop of \<open>_getFittedText\<close>: \<open>i\<close> runs from 1 to \<open>len\<close>, and
  \<open>text.substring(0, len - i)\<close> is the prefix of \<open>len - i\<close> code units.
\<close>

function getFittedText_loop :: "FlameGraph \<Rightarrow> string \<Rightarrow> num \<Rightarrow> nat \<Rightarrow> nat \<Rightarrow> string" where
  "getFittedText_loop g text maxWidth len i =
     (if i \<le> len then
        (let trimmedText = take (len - i) text;
             trimmedWidth = getTextWidthApprox g trimmedText + ToNumber (overflowCharWidth g)
         in if trimmedWidth < maxWidth then trimmedText @ overflowChar g
            else getFittedText_loop g text maxWidth len (i + 1))
      else [])"
  by pat_completeness auto
termination
  by (relation "measure (\<lambda>(g, t, w, len, i). Suc len - i)") auto

declare getFittedText_loop.simps [simp del]

definition getFittedText ::
  "FlameGraph \<Rightarrow> (string \<Rightarrow> real) \<Rightarrow> string \<Rightarrow> num \<Rightarrow> string \<times> FlameGraph" where
  "getFittedText g measureText text maxWidth =
     (case getTextWidth g measureText text of (textWidth, g') \<Rightarrow>
        if ToNumber textWidth < maxWidth then (text, g')
        else if maxWidth < ToNumber (overflowCharWidth g') then ([], g')
        else (getFittedText_loop g' text maxWidth (length text) 1, g'))"


section \<open>The constructor\<close>

text \<open>\<open>v || d\<close> for an optional numeric argument or option (\<open>None\<close>: absent or \<open>null\<close>).\<close>

definition or_default :: "real option \<Rightarrow> real \<Rightarrow> real" where
  "or_default v d = (case v of None \<Rightarrow> d | Some a \<Rightarrow> if a \<noteq> 0 then a else d)"

text \<open>
  The state that \<open>new FlameGraph(parent, sharpness)\<close> builds. \<open>boundsWidth\<close> and
  \<open>boundsHeight\<close> are the parent's layout box, \<open>measureText\<close> measures in the font the
  fresh canvas has, and the selection and the dragger are the fresh \<open>GraphSelection\<close> and
  \<open>GraphSelectionDragger\<close> with the fields of their prototypes. The two text metrics are
  \<open>null\<close> in the prototype until the constructor has computed them.
\<close>

definition new_FlameGraph ::
  "real \<Rightarrow> real \<Rightarrow> real option \<Rightarrow> real \<Rightarrow> real option \<Rightarrow> real option \<Rightarrow> string \<Rightarrow>
   (string \<Rightarrow> real) \<Rightarrow> real \<Rightarrow> real \<Rightarrow> FlameGraph" where
  "new_FlameGraph boundsWidth boundsHeight sharpness devicePixelRatio fixedWidth fixedHeight
     ovChar measureText containerLeft containerTop =
     (let ratio = or_default sharpness devicePixelRatio;
          g0 = \<lparr>pixelRatio = ratio,
                canvasWidth = or_default fixedWidth boundsWidth * ratio,
                canvasHeight = or_default fixedHeight boundsHeight * ratio,
                offsetLeft = containerLeft,
                offsetTop = containerTop,
                viewRange = None,
                graphData = None,
                selection = \<lparr>sel_start = Null, sel_end = Null, maxHeight = Undefined,
                             offsetY = Number (Fin 0)\<rparr>,
                selectionDragger = \<lparr>originX = Undefined, originY = Undefined,
                                    originOffsetY = Undefined,
                                    anchor_start = Null, anchor_end = Null\<rparr>,
                shouldRedraw = False,
                textWidthsCache = empty_object,
                overflowChar = ovChar,
                overflowCharWidth = Null,
                averageCharWidth = Null\<rparr>
      in case calcAverageCharWidth g0 measureText of (avg, g1) \<Rightarrow>
           (case getTextWidth (g1\<lparr>averageCharWidth := Number avg\<rparr>) measureText ovChar of (ow, g2) \<Rightarrow>
              g2\<lparr>overflowCharWidth := ow\<rparr>))"


section \<open>Interaction\<close>

text \<open>
  \<open>_normalizeSelectionBounds\<close>. The local \<open>minSelectionWidth\<close> is computed and never
  used, as in the source.
\<close>

definition normalizeSelectionBounds :: "FlameGraph \<Rightarrow> FlameGraph" where
  "normalizeSelectionBounds g =
     (case viewRange g of
        None \<Rightarrow> g
      | Some (lo, hi) \<Rightarrow>
          (let start = sel_start (selection g);
               end' = sel_end (selection g);
               minSelectionWidth = GRAPH_MIN_SELECTION_WIDTH * pixelRatio g;
               start = (if ToNumber start < ToNumber lo then lo else start);
               end' = (if ToNumber hi < ToNumber end' then hi else end')
           in g\<lparr>selection := (selection g)\<lparr>sel_start := start, sel_end := end'\<rparr>\<rparr>))"

text \<open>
  \<open>_onMouseMove\<close>. Reading \<open>this._viewRange[0]\<close> while \<open>_viewRange\<close> is undefined throws a
  TypeError, before anything has been written.
\<close>

definition onMouseMove :: "FlameGraph \<Rightarrow> MouseEvent \<Rightarrow> error + FlameGraph" where
  "onMouseMove g e =
     (let mouseX = (clientX e - offsetLeft g) * pixelRatio g;
          mouseY = (clientY e - offsetTop g) * pixelRatio g;
          sel = selection g;
          selectionWidth = ToNumber (sel_end sel) - ToNumber (sel_start sel);
          selectionScale = Fin (canvasWidth g) / selectionWidth;
          dragger = selectionDragger g
      in if ne_null (originX dragger) then
           (case viewRange g of
              None \<Rightarrow> Inl TypeError
            | Some (lo, hi) \<Rightarrow>
                (let moveDeltaX = (ToNumber (originX dragger) - Fin mouseX) / selectionScale;
                     moveDeltaX =
                       (if ToNumber (anchor_start dragger) + moveDeltaX \<le> ToNumber lo
                        then ToNumber lo - ToNumber (anchor_start dragger) else moveDeltaX);
                     moveDeltaX =
                       (if ToNumber hi \<le> ToNumber (anchor_end dragger) + moveDeltaX
                        then ToNumber hi - ToNumber (anchor_end dragger) else moveDeltaX);
                     moveDeltaY = ToNumber (originY dragger) - Fin mouseY;
                     offY = Number (ToNumber (originOffsetY dragger) + moveDeltaY);
                     offY = (if ToNumber offY < Fin 0 then Number (Fin 0) else offY);
                     offY = (if ToNumber (maxHeight sel) < ToNumber offY then maxHeight sel else offY);
                     g1 = g\<lparr>selection := sel
                            \<lparr>sel_start := Number (ToNumber (anchor_start dragger) + moveDeltaX),
                             sel_end := Number (ToNumber (anchor_end dragger) + moveDeltaX),
                             offsetY := offY\<rparr>\<rparr>
                 in Inr ((normalizeSelectionBounds g1)\<lparr>shouldRedraw := True\<rparr>)))
         else Inr g)"

definition onMouseDown :: "FlameGraph \<Rightarrow> MouseEvent \<Rightarrow> FlameGraph" where
  "onMouseDown g e =
     (let mouseX = (clientX e - offsetLeft g) * pixelRatio g;
          mouseY = (clientY e - offsetTop g) * pixelRatio g
      in g\<lparr>selectionDragger :=
             \<lparr>originX = Number (Fin mouseX),
              originY = Number (Fin mouseY),
              originOffsetY = offsetY (selection g),
              anchor_start = sel_start (selection g),
              anchor_end = sel_end (selection g)\<rparr>\<rparr>)"

definition onMouseUp :: "FlameGraph \<Rightarrow> FlameGraph" where
  "onMouseUp g = g\<lparr>selectionDragger := (selectionDragger g)\<lparr>originX := Null, originY := Null\<rparr>\<rparr>"

definition incrementForMode :: "nat \<Rightarrow> real" where
  "incrementForMode mode =
     (if mode = DOM_DELTA_PIXEL then 1
      else if mode = DOM_DELTA_LINE then 15
      else if mode = DOM_DELTA_PAGE then 400
      else 0)"

text \<open>
  \<open>_onMouseWheel\<close>, in two parts: the zoom and the pan, which write the new \<open>start\<close> and
  \<open>end\<close> into the selection, and then the call of \<open>_normalizeSelectionBounds\<close> and the
  dirty flag. Both vectors are divided by the scale computed before the zoom.
\<close>

definition onMouseWheel_selection :: "FlameGraph \<Rightarrow> WheelEvent \<Rightarrow> FlameGraph" where
  "onMouseWheel_selection g e =
     (let mouseX = (wheel_clientX e - offsetLeft g) * pixelRatio g;
          sel = selection g;
          selectionWidth = ToNumber (sel_end sel) - ToNumber (sel_start sel);
          selectionScale = Fin (canvasWidth g) / selectionWidth;
          distFromStart = mouseX;
          distFromEnd = canvasWidth g - mouseX;
          vectorY = Fin (deltaY e * incrementForMode (deltaMode e) * GRAPH_WHEEL_ZOOM_SENSITIVITY)
                      / selectionScale;
          start = ToNumber (sel_start sel) - Fin distFromStart * vectorY;
          end' = ToNumber (sel_end sel) + Fin distFromEnd * vectorY;
          vectorX = Fin (deltaX e * incrementForMode (deltaMode e) * GRAPH_WHEEL_SCROLL_SENSITIVITY)
                      / selectionScale;
          start = start + vectorX;
          end' = end' + vectorX
      in g\<lparr>selection := sel\<lparr>sel_start := Number start, sel_end := Number end'\<rparr>\<rparr>)"

definition onMouseWheel :: "FlameGraph \<Rightarrow> WheelEvent \<Rightarrow> FlameGraph" where
  "onMouseWheel g e = (normalizeSelectionBounds (onMouseWheel_selection g e))\<lparr>shouldRedraw := True\<rparr>"

definition onKeyPress :: "FlameGraph \<Rightarrow> KeyEvent \<Rightarrow> FlameGraph" where
  "onKeyPress g e =
     (let key = (if key_code e = ''KeyW'' then ''w''
                 else if key_code e = ''KeyS'' then ''s''
                 else if key_code e = ''KeyA'' then ''a''
                 else if key_code e = ''KeyD'' then ''d''
                 else key_key e);
          centre = offsetLeft g + canvasWidth g / 2
      in if key = ''w'' then
           onMouseWheel g \<lparr>wheel_clientX = centre, deltaX = 0, deltaY = - 100,
                           deltaMode = DOM_DELTA_PIXEL\<rparr>
         else if key = ''s'' then
           onMouseWheel g \<lparr>wheel_clientX = centre, deltaX = 0, deltaY = 100,
                           deltaMode = DOM_DELTA_PIXEL\<rparr>
         else if key = ''d'' then
           onMouseWheel g \<lparr>wheel_clientX = centre, deltaX = 100, deltaY = 0,
                           deltaMode = DOM_DELTA_PIXEL\<rparr>
         else if key = ''a'' then
           onMouseWheel g \<lparr>wheel_clientX = centre, deltaX = - 100, deltaY = 0,
                           deltaMode = DOM_DELTA_PIXEL\<rparr>
         else g)"


section \<open>The tick planner\<close>

text \<open>
  The loop of \<open>_findOptimalTickInterval\<close>. \<open>timingStep <<= 1\<close> is a shift of 32-bit
  integers: the step is a 32-bit word, read as a signed integer when it is multiplied.
  The loop has no bound, so it is a partial function; \<open>None\<close> means that it never returns.
\<close>

partial_function (option) findOptimalTickInterval_loop :: "num \<Rightarrow> real \<Rightarrow> 32 word \<Rightarrow> num option" where
  "findOptimalTickInterval_loop dataScale spacingMin timingStep =
     (let scaledStep = dataScale * Fin (real_of_int (sint timingStep))
      in if scaledStep < Fin spacingMin
         then findOptimalTickInterval_loop dataScale spacingMin (push_bit 1 timingStep)
         else Some scaledStep)"

definition findOptimalTickInterval :: "FlameGraph \<Rightarrow> num \<Rightarrow> num option" where
  "findOptimalTickInterval g dataScale =
     (let timingStep = TIMELINE_TICKS_MULTIPLE;
          spacingMin = TIMELINE_TICKS_SPACING_MIN * pixelRatio g
      in if Fin spacingMin < dataScale then Some dataScale
         else if dataScale = Fin 0 then Some (Fin 1)
         else findOptimalTickInterval_loop dataScale spacingMin timingStep)"


section \<open>A concrete widget for the examples\<close>

text \<open>
  A drawing surface whose font gives every character 6 pixels, except a wide \<open>W\<close> of 10
  and a narrow \<open>i\<close> of 2; a string is as wide as its characters together.
\<close>

definition demo_charWidth :: "char \<Rightarrow> real" where
  "demo_charWidth c = (if c = CHR ''W'' then 10 else if c = CHR ''i'' then 2 else 6)"

definition demo_measureText :: "string \<Rightarrow> real" where
  "demo_measureText s = sum_list (map demo_charWidth s)"

text \<open>
  A widget in a parent of 1000 by 400 pixels at device pixel ratio 1, with no sharpness
  argument, no fixed size and the default overflow marker.
\<close>

definition demo_graph :: FlameGraph where
  "demo_graph = new_FlameGraph 1000 400 None 1 None None ''...'' demo_measureText 0 0"

text \<open>The data of the scenario in the specification: one layer with one block.\<close>

definition demo_data :: "Layer list" where
  "demo_data =
     [\<lparr>color = ''#f00'',
       blocks = [\<lparr>block_x = 0, block_y = 0, block_width = 100, block_height = 20,
                  block_text = ''abc''\<rparr>]\<rparr>]"

definition demo_loaded :: FlameGraph where
  "demo_loaded = setData demo_graph demo_data"

text \<open>The button pressed at (10, 30) and released again.\<close>

definition demo_released :: FlameGraph where
  "demo_released = onMouseUp (onMouseDown demo_loaded \<lparr>clientX = 10, clientY = 30\<rparr>)"


text \<open>The keys D and A, unshifted.\<close>

definition demo_keyD :: KeyEvent where
  "demo_keyD = \<lparr>key_code = ''KeyD'', key_key = ''d''\<rparr>"

definition demo_keyA :: KeyEvent where
  "demo_keyA = \<lparr>key_code = ''KeyA'', key_key = ''a''\<rparr>"

text \<open>The loaded widget after D and then A.\<close>

definition demo_panned :: FlameGraph where
  "demo_panned = onKeyPress (onKeyPress demo_loaded demo_keyD) demo_keyA"

text \<open>A wheel event of vertical delta \<open>dy\<close> and horizontal delta \<open>dx\<close> pixels at client x \<open>cx\<close>.\<close>

definition demo_wheel :: "real \<Rightarrow> real \<Rightarrow> real \<Rightarrow> WheelEvent" where
  "demo_wheel cx dx dy = \<lparr>wheel_clientX = cx, deltaX = dx, deltaY = dy, deltaMode = DOM_DELTA_PIXEL\<rparr>"


section \<open>Notions of the specification\<close>

text \<open>
  The time coordinate under the device pixel \<open>p\<close>, as the specification writes it:
  \<open>start + p * (end - start) / canvasWidth\<close>.
\<close>

definition timeAtPixel :: "FlameGraph \<Rightarrow> real \<Rightarrow> num" where
  "timeAtPixel g p =
     ToNumber (sel_start (selection g))
       + Fin p * (ToNumber (sel_end (selection g)) - ToNumber (sel_start (selection g)))
           / Fin (canvasWidth g)"


section \<open>Arithmetic on finite numbers\<close>

lemma Fin_simps [simp]:
  "Fin a + Fin b = Fin (a + b)"
  "Fin a - Fin b = Fin (a - b)"
  "Fin a * Fin b = Fin (a * b)"
  "(Fin a < Fin b) = (a < b)"
  "(Fin a \<le> Fin b) = (a \<le> b)"
  by (simp_all add: plus_num_def minus_num_def times_num_def less_num_def less_eq_num_def)

lemma Fin_div [simp]: "b \<noteq> 0 \<Longrightarrow> Fin a / Fin b = Fin (a / b)"
  by (simp add: divide_num_def)

lemma Fin_div_zero: "a \<noteq> 0 \<Longrightarrow> Fin a / Fin 0 = PInf \<or> Fin a / Fin 0 = NInf"
  by (simp add: divide_num_def)

lemma Fin_div_inf [simp]: "Fin a / PInf = Fin 0" "Fin a / NInf = Fin 0"
  by (simp_all add: divide_num_def)

lemma less_Fin_mono: "x < Fin w1 \<Longrightarrow> w1 \<le> w2 \<Longrightarrow> x < Fin w2"
  by (cases x) (simp_all add: less_num_def)

lemma Fin_less_mono: "Fin w2 < x \<Longrightarrow> w1 \<le> w2 \<Longrightarrow> Fin w1 < x"
  by (cases x) (simp_all add: less_num_def)


section \<open>The viewport\<close>

lemma normalizeSelectionBounds_fields [simp]:
  "canvasWidth (normalizeSelectionBounds g) = canvasWidth g"
  "pixelRatio (normalizeSelectionBounds g) = pixelRatio g"
  "offsetLeft (normalizeSelectionBounds g) = offsetLeft g"
  "viewRange (normalizeSelectionBounds g) = viewRange g"
  by (simp_all add: normalizeSelectionBounds_def Let_def split: option.splits prod.splits)

lemma onMouseWheel_selection_fields [simp]:
  "canvasWidth (onMouseWheel_selection g e) = canvasWidth g"
  "viewRange (onMouseWheel_selection g e) = viewRange g"
  by (simp_all add: onMouseWheel_selection_def Let_def)

text \<open>Normalisation leaves a window alone that is inside the view range.\<close>

lemma normalizeSelectionBounds_inside:
  assumes "viewRange g = Some (lo, hi)"
    and "\<not> ToNumber (sel_start (selection g)) < ToNumber lo"
    and "\<not> ToNumber hi < ToNumber (sel_end (selection g))"
  shows "normalizeSelectionBounds g = g"
  using assms by (simp add: normalizeSelectionBounds_def Let_def)

text \<open>
  What normalisation does establish: \<open>start\<close> is raised to the lower bound and \<open>end\<close> is
  lowered to the upper bound, each on its own.
\<close>

lemma normalizeSelectionBounds_clamps:
  assumes "viewRange g = Some (Number (Fin lo), Number (Fin hi))"
    and "sel_start (selection g) = Number (Fin s)"
    and "sel_end (selection g) = Number (Fin e)"
  shows "sel_start (selection (normalizeSelectionBounds g)) = Number (Fin (max lo s))
         \<and> sel_end (selection (normalizeSelectionBounds g)) = Number (Fin (min hi e))"
  using assms by (simp add: normalizeSelectionBounds_def Let_def max_def min_def)

text \<open>
  A drag-move from an anchor inside the view range gives a window inside the view
  range, as wide as the anchor, and a vertical offset between 0 and \<open>maxHeight\<close>.
\<close>

lemma onMouseMove_drag:
  assumes vr: "viewRange g = Some (Number (Fin lo), Number (Fin hi))"
    and a: "anchor_start (selectionDragger g) = Number (Fin a)"
    and b: "anchor_end (selectionDragger g) = Number (Fin b)"
    and inside: "lo \<le> a" "a \<le> b" "b \<le> hi"
    and ox: "originX (selectionDragger g) = Number (Fin ox)"
    and oy: "originY (selectionDragger g) = Number (Fin oy)"
    and oo: "originOffsetY (selectionDragger g) = Number (Fin oo)"
    and s: "sel_start (selection g) = Number (Fin s)"
    and e: "sel_end (selection g) = Number (Fin e)"
    and se: "s \<noteq> e"
    and W: "canvasWidth g \<noteq> 0"
    and mh: "maxHeight (selection g) = Number (Fin mh)" "0 \<le> mh"
  shows "\<exists>g' s' e' o'. onMouseMove g ev = Inr g'
           \<and> sel_start (selection g') = Number (Fin s')
           \<and> sel_end (selection g') = Number (Fin e')
           \<and> offsetY (selection g') = Number (Fin o')
           \<and> lo \<le> s' \<and> s' \<le> e' \<and> e' \<le> hi \<and> e' - s' = b - a
           \<and> 0 \<le> o' \<and> o' \<le> mh"
proof -
  have sc: "canvasWidth g / (e - s) \<noteq> 0" using se W by simp
  have es: "e - s \<noteq> 0" using se by simp
  show ?thesis
    using assms sc es
    by (auto simp add: onMouseMove_def Let_def normalizeSelectionBounds_def)
qed

text \<open>
  A drag-move whose delta would take \<open>start\<close> to the lower bound or below puts \<open>start\<close> on
  the lower bound and keeps the width of the anchor.
\<close>

lemma onMouseMove_drag_left:
  assumes vr: "viewRange g = Some (Number (Fin lo), Number (Fin hi))"
    and a: "anchor_start (selectionDragger g) = Number (Fin a)"
    and b: "anchor_end (selectionDragger g) = Number (Fin b)"
    and inside: "lo \<le> a" "a \<le> b" "b \<le> hi"
    and ox: "originX (selectionDragger g) = Number (Fin ox)"
    and s: "sel_start (selection g) = Number (Fin s)"
    and e: "sel_end (selection g) = Number (Fin e)"
    and se: "s \<noteq> e"
    and W: "canvasWidth g \<noteq> 0"
    and push: "a + (ox - (clientX ev - offsetLeft g) * pixelRatio g) / (canvasWidth g / (e - s)) \<le> lo"
  shows "\<exists>g'. onMouseMove g ev = Inr g'
           \<and> sel_start (selection g') = Number (Fin lo)
           \<and> sel_end (selection g') = Number (Fin (lo + (b - a)))"
proof -
  have sc: "canvasWidth g / (e - s) \<noteq> 0" using se W by simp
  have es: "e - s \<noteq> 0" using se by simp
  show ?thesis
    using assms sc es
    by (auto simp add: onMouseMove_def Let_def normalizeSelectionBounds_def)
qed

text \<open>
  C1. The specification asks that after every mutation and its normalisation
  \<open>min \<le> start \<le> end \<le> max\<close> holds for the view range \<open>[min, max]\<close>. The widget loaded
  with the scenario's block shows \<open>[0, 100]\<close> in the view range \<open>[0, 100]\<close>. A wheel event
  of \<open>deltaY = -3000\<close> pixels at the middle of the canvas leaves \<open>start = 52.5\<close> above
  \<open>end = 47.5\<close>, and one of \<open>deltaX = 3000\<close> pixels leaves \<open>start = 150\<close> above \<open>end = 100\<close>
  and above the upper bound.
\<close>

theorem wheel_zoom_inverts_selection:
  "viewRange demo_loaded = Some (Number (Fin 0), Number (Fin 100))
   \<and> selection demo_loaded
       = \<lparr>sel_start = Number (Fin 0), sel_end = Number (Fin 100),
          maxHeight = Number (Fin 20), offsetY = Number (Fin 0)\<rparr>
   \<and> selection (onMouseWheel demo_loaded (demo_wheel 500 0 (- 3000)))
       = \<lparr>sel_start = Number (Fin (105 / 2)), sel_end = Number (Fin (95 / 2)),
          maxHeight = Number (Fin 20), offsetY = Number (Fin 0)\<rparr>
   \<and> selection (onMouseWheel demo_loaded (demo_wheel 500 3000 0))
       = \<lparr>sel_start = Number (Fin 150), sel_end = Number (Fin 100),
          maxHeight = Number (Fin 20), offsetY = Number (Fin 0)\<rparr>"
  by code_simp

text \<open>
  C2. The specification asks that after a wheel zoom the window is at least
  \<open>GRAPH_MIN_SELECTION_WIDTH\<close> times the pixel ratio wide, here 10. From the window
  \<open>[0, 100]\<close> a wheel event of \<open>deltaY = -2800\<close> pixels at the middle of the canvas gives
  the window \<open>[49, 51]\<close>, of width 2.
\<close>

theorem wheel_zoom_below_minimum_width:
  "selection (onMouseWheel demo_loaded (demo_wheel 500 0 (- 2800)))
       = \<lparr>sel_start = Number (Fin 49), sel_end = Number (Fin 51),
          maxHeight = Number (Fin 20), offsetY = Number (Fin 0)\<rparr>
   \<and> GRAPH_MIN_SELECTION_WIDTH * pixelRatio demo_loaded = 10"
  by code_simp

text \<open>
  C3. The specification asks that a pan which would leave the view range is cut short,
  so that the edge lands on the bound and the window keeps its width. The drag does so
  (\<open>onMouseMove_drag_left\<close>); the pan of the wheel handler does not. From \<open>[0, 100]\<close> in
  the view range \<open>[0, 100]\<close> the key D gives \<open>[5, 100]\<close>; the key A then gives
  \<open>[0.25, 95.25]\<close>, of width 95, and the key A once more gives \<open>[0, 90.5]\<close>, of width 90.5.
\<close>

theorem wheel_pan_changes_width:
  "selection (onKeyPress demo_loaded demo_keyD)
       = \<lparr>sel_start = Number (Fin 5), sel_end = Number (Fin 100),
          maxHeight = Number (Fin 20), offsetY = Number (Fin 0)\<rparr>
   \<and> selection demo_panned
       = \<lparr>sel_start = Number (Fin (1 / 4)), sel_end = Number (Fin (381 / 4)),
          maxHeight = Number (Fin 20), offsetY = Number (Fin 0)\<rparr>
   \<and> selection (onKeyPress demo_panned demo_keyA)
       = \<lparr>sel_start = Number (Fin 0), sel_end = Number (Fin (181 / 2)),
          maxHeight = Number (Fin 20), offsetY = Number (Fin 0)\<rparr>"
  by code_simp

text \<open>
  The window that the zoom of a wheel event writes, before normalisation: the two edges
  move by the pointer's distances from the canvas edges times one vector \<open>v\<close>.
\<close>

lemma wheel_zoom_selection:
  assumes s: "sel_start (selection g) = Number (Fin s)"
    and e: "sel_end (selection g) = Number (Fin e)"
    and W: "canvasWidth g \<noteq> 0"
    and dx: "deltaX ev = 0"
  shows "\<exists>v. sel_start (selection (onMouseWheel_selection g ev))
                = Number (Fin (s - (wheel_clientX ev - offsetLeft g) * pixelRatio g * v))
           \<and> sel_end (selection (onMouseWheel_selection g ev))
                = Number (Fin (e + (canvasWidth g - (wheel_clientX ev - offsetLeft g) * pixelRatio g) * v))
           \<and> canvasWidth g * v
                = deltaY ev * incrementForMode (deltaMode ev) * GRAPH_WHEEL_ZOOM_SENSITIVITY * (e - s)"
proof (cases "e = s")
  case True
  from W have "Fin (canvasWidth g) / Fin 0 = PInf \<or> Fin (canvasWidth g) / Fin 0 = NInf"
    by (rule Fin_div_zero)
  then show ?thesis
    using s e dx True
    by (intro exI [of _ 0]) (auto simp add: onMouseWheel_selection_def Let_def)
next
  case False
  then have "canvasWidth g / (e - s) \<noteq> 0" using W by simp
  then show ?thesis
    using s e dx False W
    by (intro exI [of _ "deltaY ev * incrementForMode (deltaMode ev)
                           * GRAPH_WHEEL_ZOOM_SENSITIVITY / (canvasWidth g / (e - s))"])
       (simp add: onMouseWheel_selection_def Let_def)
qed

text \<open>
  The zoom multiplies the width of the window by \<open>1 + deltaY * increment * sensitivity\<close>:
  by 0.965 for the key W, and by a negative number for a vertical delta below about
  \<open>-2857\<close> pixels.
\<close>

lemma wheel_zoom_width:
  assumes s: "sel_start (selection g) = Number (Fin s)"
    and e: "sel_end (selection g) = Number (Fin e)"
    and W: "canvasWidth g \<noteq> 0"
    and dx: "deltaX ev = 0"
  shows "\<exists>s' e'. sel_start (selection (onMouseWheel_selection g ev)) = Number (Fin s')
           \<and> sel_end (selection (onMouseWheel_selection g ev)) = Number (Fin e')
           \<and> e' - s' = (e - s) * (1 + deltaY ev * incrementForMode (deltaMode ev)
                                         * GRAPH_WHEEL_ZOOM_SENSITIVITY)"
proof -
  let ?p = "(wheel_clientX ev - offsetLeft g) * pixelRatio g"
  obtain v where
    s': "sel_start (selection (onMouseWheel_selection g ev)) = Number (Fin (s - ?p * v))"
    and e': "sel_end (selection (onMouseWheel_selection g ev))
               = Number (Fin (e + (canvasWidth g - ?p) * v))"
    and v: "canvasWidth g * v
              = deltaY ev * incrementForMode (deltaMode ev) * GRAPH_WHEEL_ZOOM_SENSITIVITY * (e - s)"
    using wheel_zoom_selection [OF s e W dx] by auto
  let ?k = "deltaY ev * incrementForMode (deltaMode ev) * GRAPH_WHEEL_ZOOM_SENSITIVITY"
  have "(e + (canvasWidth g - ?p) * v) - (s - ?p * v) = (e - s) + canvasWidth g * v"
    by (simp add: algebra_simps)
  also have "\<dots> = (e - s) + ?k * (e - s)"
    by (simp only: v)
  also have "\<dots> = (e - s) * (1 + ?k)"
    by (simp add: algebra_simps)
  finally show ?thesis using s' e' by blast
qed

text \<open>The wheel handler does not touch the vertical offset.\<close>

lemma onMouseWheel_offsetY:
  "offsetY (selection (onMouseWheel g ev)) = offsetY (selection g)
   \<and> maxHeight (selection (onMouseWheel g ev)) = maxHeight (selection g)"
  by (simp add: onMouseWheel_def onMouseWheel_selection_def normalizeSelectionBounds_def Let_def
      split: option.splits prod.splits)

text \<open>
  C4. A wheel event with \<open>deltaX = 0\<close> whose new window normalisation does not clamp
  leaves the time coordinate under the pointer's device pixel \<open>p\<close> as it was:
  \<open>start' + p * (end' - start') / canvasWidth = start + p * (end - start) / canvasWidth\<close>.
  Both sides are the same finite number.
\<close>

theorem wheel_zoom_keeps_time_under_pointer:
  assumes s: "sel_start (selection g) = Number (Fin s)"
    and e: "sel_end (selection g) = Number (Fin e)"
    and W: "canvasWidth g \<noteq> 0"
    and dx: "deltaX ev = 0"
    and unclamped: "normalizeSelectionBounds (onMouseWheel_selection g ev) = onMouseWheel_selection g ev"
    and p: "p = (wheel_clientX ev - offsetLeft g) * pixelRatio g"
  shows "timeAtPixel (onMouseWheel g ev) p = Fin (s + p * (e - s) / canvasWidth g)
         \<and> timeAtPixel g p = Fin (s + p * (e - s) / canvasWidth g)"
proof -
  obtain v where
    s': "sel_start (selection (onMouseWheel_selection g ev)) = Number (Fin (s - p * v))"
    and e': "sel_end (selection (onMouseWheel_selection g ev)) = Number (Fin (e + (canvasWidth g - p) * v))"
    using wheel_zoom_selection [OF s e W dx] p by auto
  have "(s - p * v) + p * ((e + (canvasWidth g - p) * v) - (s - p * v)) / canvasWidth g
          = s + p * (e - s) / canvasWidth g"
    using W by (simp add: field_simps)
  then have "timeAtPixel (onMouseWheel_selection g ev) p = Fin (s + p * (e - s) / canvasWidth g)"
    using s' e' W by (simp add: timeAtPixel_def)
  moreover have "timeAtPixel (onMouseWheel g ev) p = timeAtPixel (onMouseWheel_selection g ev) p"
    by (simp add: onMouseWheel_def unclamped timeAtPixel_def)
  moreover have "timeAtPixel g p = Fin (s + p * (e - s) / canvasWidth g)"
    using s e W by (simp add: timeAtPixel_def)
  ultimately show ?thesis by simp
qed


theorem wheel_zoom_keeps_time_under_pointer_witness:
  "sel_start (selection demo_loaded) = Number (Fin 0)
   \<and> sel_end (selection demo_loaded) = Number (Fin 100)
   \<and> canvasWidth demo_loaded \<noteq> 0
   \<and> deltaX (demo_wheel 250 0 (- 100)) = 0
   \<and> normalizeSelectionBounds (onMouseWheel_selection demo_loaded (demo_wheel 250 0 (- 100)))
        = onMouseWheel_selection demo_loaded (demo_wheel 250 0 (- 100))
   \<and> timeAtPixel (onMouseWheel demo_loaded (demo_wheel 250 0 (- 100))) 250 = Fin 25
   \<and> timeAtPixel demo_loaded 250 = Fin 25"
proof -
  let ?ev = "demo_wheel 250 0 (- 100)"
  have s: "sel_start (selection demo_loaded) = Number (Fin 0)" by code_simp
  have e: "sel_end (selection demo_loaded) = Number (Fin 100)" by code_simp
  have W: "canvasWidth demo_loaded = 1000" by code_simp
  then have W0: "canvasWidth demo_loaded \<noteq> 0" by simp
  have dx: "deltaX ?ev = 0" by (simp add: demo_wheel_def)
  have vr: "viewRange (onMouseWheel_selection demo_loaded ?ev)
              = Some (Number (Fin 0), Number (Fin 100))"
    by code_simp
  have lo: "\<not> ToNumber (sel_start (selection (onMouseWheel_selection demo_loaded ?ev)))
              < ToNumber (Number (Fin 0))"
    by code_simp
  have hi: "\<not> ToNumber (Number (Fin 100))
              < ToNumber (sel_end (selection (onMouseWheel_selection demo_loaded ?ev)))"
    by code_simp
  have un: "normalizeSelectionBounds (onMouseWheel_selection demo_loaded ?ev)
              = onMouseWheel_selection demo_loaded ?ev"
    using vr lo hi by (rule normalizeSelectionBounds_inside)
  have p: "250 = (wheel_clientX ?ev - offsetLeft demo_loaded) * pixelRatio demo_loaded"
    by code_simp
  from wheel_zoom_keeps_time_under_pointer [OF s e W0 dx un p] s e W0 dx un W
  show ?thesis by simp
qed


section \<open>The label fitter\<close>

lemma getTextWidth_fields [simp]:
  "overflowCharWidth (snd (getTextWidth g m t)) = overflowCharWidth g"
  "overflowChar (snd (getTextWidth g m t)) = overflowChar g"
  "averageCharWidth (snd (getTextWidth g m t)) = averageCharWidth g"
  by (simp_all add: getTextWidth_def Let_def)

text \<open>A text without an entry in the cache is measured, and the width is stored.\<close>

lemma getTextWidth_uncached:
  assumes "textWidthsCache g text = None"
  shows "getTextWidth g measureText text
           = (Number (Fin (measureText text)),
              g\<lparr>textWidthsCache := (textWidthsCache g)(text \<mapsto> Number (Fin (measureText text)))\<rparr>)"
  using assms by (simp add: getTextWidth_def)

text \<open>A second call gives the width of the first.\<close>

lemma getTextWidth_again:
  "fst (getTextWidth (snd (getTextWidth g measureText text)) measureText text)
     = fst (getTextWidth g measureText text)"
  by (simp add: getTextWidth_def Let_def)

text \<open>
  A text that names a property of \<open>Object.prototype\<close> never gets a numeric width: the
  fitter trims it even where it has room.
\<close>

lemma getFittedText_inherited_key:
  "demo_measureText ''toString'' = 44
   \<and> fst (getTextWidth demo_graph demo_measureText ''toString'') = Obj
   \<and> fst (getFittedText demo_graph demo_measureText ''toString'' (Fin 1000)) = ''toStrin...''"
  by code_simp

text \<open>
  C5. As stated (\<open>w \<ge>\<close> the measured width), the property fails for the text
  \<open>abcdef\<close> at an available width equal to its measured width of 36: the fitter
  compares with \<open><\<close>, and here it cuts the text to \<open>ab...\<close>.
\<close>

theorem getFittedText_equal_width_counterexample:
  "demo_measureText ''abcdef'' \<le> 36
   \<and> fst (getFittedText demo_graph demo_measureText ''abcdef'' (Fin 36)) = ''ab...''
   \<and> fst (getFittedText demo_graph demo_measureText ''abcdef'' (Fin 36)) \<noteq> ''abcdef''"
  by code_simp

text \<open>
  C5, amended. Whenever \<open>_getTextWidth\<close> gives a number for the text and the available
  width is greater than it, \<open>_getFittedText\<close> returns the text unchanged.
\<close>

theorem getFittedText_returns_text:
  assumes "fst (getTextWidth g measureText text) = Number (Fin tw)" and "tw < w"
  shows "fst (getFittedText g measureText text (Fin w)) = text"
proof -
  obtain v g' where v: "getTextWidth g measureText text = (v, g')"
    by (cases "getTextWidth g measureText text")
  with assms show ?thesis by (simp add: getFittedText_def)
qed

theorem getFittedText_returns_text_witness:
  "fst (getTextWidth demo_graph demo_measureText ''abc'') = Number (Fin 18)
   \<and> (18 :: real) < 20
   \<and> fst (getFittedText demo_graph demo_measureText ''abc'' (Fin 20)) = ''abc''"
proof -
  have h: "fst (getTextWidth demo_graph demo_measureText ''abc'') = Number (Fin 18)"
    by code_simp
  have l: "(18 :: real) < 20" by simp
  from getFittedText_returns_text [OF h l] h show ?thesis by simp
qed

text \<open>
  C6. As stated (every text, \<open>w\<close> below the width of the overflow marker), the property
  fails for a text that is itself narrower than \<open>w\<close>: the first test of the fitter returns
  it. The marker measures 18; the text \<open>a\<close> measures 6 and is returned in a width of 10.
\<close>

theorem getFittedText_narrow_text_counterexample:
  "Fin 10 < ToNumber (overflowCharWidth demo_graph)
   \<and> fst (getFittedText demo_graph demo_measureText ''a'' (Fin 10)) = ''a''
   \<and> fst (getFittedText demo_graph demo_measureText ''a'' (Fin 10)) \<noteq> []"
  by code_simp

text \<open>
  C6, amended. If the available width is below the width of the overflow marker and the
  text's own width is not below the available width, \<open>_getFittedText\<close> returns the empty
  string.
\<close>

theorem getFittedText_suppressed:
  assumes "w < ToNumber (overflowCharWidth g)"
    and "\<not> ToNumber (fst (getTextWidth g measureText text)) < w"
  shows "fst (getFittedText g measureText text w) = []"
proof -
  obtain tw g' where tw: "getTextWidth g measureText text = (tw, g')"
    by (cases "getTextWidth g measureText text")
  then have "overflowCharWidth g' = overflowCharWidth g"
    using getTextWidth_fields(1) [of g measureText "text"] by simp
  with assms tw show ?thesis by (simp add: getFittedText_def)
qed

theorem getFittedText_suppressed_witness:
  "Fin 10 < ToNumber (overflowCharWidth demo_graph)
   \<and> \<not> ToNumber (fst (getTextWidth demo_graph demo_measureText ''abcdef'')) < Fin 10
   \<and> fst (getFittedText demo_graph demo_measureText ''abcdef'' (Fin 10)) = []"
proof -
  have h1: "Fin 10 < ToNumber (overflowCharWidth demo_graph)" by code_simp
  have h2: "\<not> ToNumber (fst (getTextWidth demo_graph demo_measureText ''abcdef'')) < Fin 10"
    by code_simp
  from getFittedText_suppressed [OF h1 h2] h1 h2 show ?thesis by simp
qed

text \<open>The trimming loop returns nothing longer than its first candidate.\<close>

lemma getFittedText_loop_bound:
  "length (getFittedText_loop g text w len i)
     \<le> length (take (len - i) text) + length (overflowChar g)"
proof (induction "Suc len - i" arbitrary: i)
  case 0
  then have "\<not> i \<le> len" by simp
  then show ?case by (subst getFittedText_loop.simps) simp
next
  case (Suc n)
  then have le: "i \<le> len" and n: "n = Suc len - (i + 1)" by simp_all
  show ?case
  proof (cases "getTextWidthApprox g (take (len - i) text) + ToNumber (overflowCharWidth g) < w")
    case True
    with le show ?thesis by (subst getFittedText_loop.simps) simp
  next
    case False
    have "length (getFittedText_loop g text w len (i + 1))
            \<le> length (take (len - (i + 1)) text) + length (overflowChar g)"
      using Suc.hyps(1) [OF n] .
    also have "\<dots> \<le> length (take (len - i) text) + length (overflowChar g)"
      by simp
    finally show ?thesis
      using le False by (subst getFittedText_loop.simps) simp
  qed
qed

text \<open>The trimming loop is monotone in the available width.\<close>

lemma getFittedText_loop_mono:
  assumes "w1 \<le> w2"
  shows "length (getFittedText_loop g text (Fin w1) len i)
           \<le> length (getFittedText_loop g text (Fin w2) len i)"
proof (induction "Suc len - i" arbitrary: i)
  case 0
  then have "\<not> i \<le> len" by simp
  then show ?case by (subst getFittedText_loop.simps) simp
next
  case (Suc n)
  then have le: "i \<le> len" and n: "n = Suc len - (i + 1)" by simp_all
  let ?tw = "getTextWidthApprox g (take (len - i) text) + ToNumber (overflowCharWidth g)"
  show ?case
  proof (cases "?tw < Fin w1")
    case True
    then have "?tw < Fin w2" using assms by (rule less_Fin_mono)
    with True le show ?thesis
      by (subst (1 2) getFittedText_loop.simps) simp
  next
    case nofit1: False
    have rec1: "getFittedText_loop g text (Fin w1) len i
                  = getFittedText_loop g text (Fin w1) len (i + 1)"
      using le nofit1 by (subst getFittedText_loop.simps) simp
    show ?thesis
    proof (cases "?tw < Fin w2")
      case True
      have "length (getFittedText_loop g text (Fin w1) len (i + 1))
              \<le> length (take (len - (i + 1)) text) + length (overflowChar g)"
        by (rule getFittedText_loop_bound)
      also have "\<dots> \<le> length (take (len - i) text) + length (overflowChar g)"
        by simp
      finally have "length (getFittedText_loop g text (Fin w1) len (i + 1))
              \<le> length (take (len - i) text) + length (overflowChar g)" .
      moreover have "getFittedText_loop g text (Fin w2) len i = take (len - i) text @ overflowChar g"
        using le True by (subst getFittedText_loop.simps) simp
      ultimately show ?thesis using rec1 by simp
    next
      case nofit2: False
      have "getFittedText_loop g text (Fin w2) len i
              = getFittedText_loop g text (Fin w2) len (i + 1)"
        using le nofit2 by (subst getFittedText_loop.simps) simp
      with rec1 show ?thesis using Suc.hyps(1) [OF n] by simp
    qed
  qed
qed

text \<open>
  C7. As stated (all widths \<open>w1 \<le> w2\<close>), monotonicity fails where the wider width returns
  the text itself and the narrower one a trimmed text with the marker: the trimming uses
  the average character width, which underestimates a text of wide characters. The
  text \<open>WWWWWW\<close> measures 60; in a width of 50 it becomes \<open>WWWWW...\<close> of 8 characters, in a
  width of 61 it stays at its 6 characters.
\<close>

theorem getFittedText_monotone_counterexample:
  "(50 :: real) \<le> 61
   \<and> fst (getFittedText demo_graph demo_measureText ''WWWWWW'' (Fin 50)) = ''WWWWW...''
   \<and> fst (getFittedText demo_graph demo_measureText ''WWWWWW'' (Fin 61)) = ''WWWWWW''
   \<and> \<not> length (fst (getFittedText demo_graph demo_measureText ''WWWWWW'' (Fin 50)))
         \<le> length (fst (getFittedText demo_graph demo_measureText ''WWWWWW'' (Fin 61)))"
  by code_simp

text \<open>
  C7, amended. For widths \<open>w1 \<le> w2\<close> on the same side of the text's width (the text
  itself is not returned at \<open>w2\<close>, or it is returned at \<open>w1\<close> too), the fitted text at
  \<open>w1\<close> is no longer than the fitted text at \<open>w2\<close>.
\<close>

theorem getFittedText_monotone_when_trimming:
  assumes "w1 \<le> w2"
    and "\<not> ToNumber (fst (getTextWidth g measureText text)) < Fin w2
         \<or> ToNumber (fst (getTextWidth g measureText text)) < Fin w1"
  shows "length (fst (getFittedText g measureText text (Fin w1)))
           \<le> length (fst (getFittedText g measureText text (Fin w2)))"
proof (cases "ToNumber (fst (getTextWidth g measureText text)) < Fin w1")
  case True
  obtain tw g' where tw: "getTextWidth g measureText text = (tw, g')"
    by (cases "getTextWidth g measureText text")
  from True tw have a1: "ToNumber tw < Fin w1" by simp
  then have a2: "ToNumber tw < Fin w2"
    using assms(1) by (rule less_Fin_mono)
  from tw a1 a2 show ?thesis by (simp add: getFittedText_def)
next
  case below: False
  obtain tw g' where tw: "getTextWidth g measureText text = (tw, g')"
    by (cases "getTextWidth g measureText text")
  from assms(2) below tw have n2: "\<not> ToNumber tw < Fin w2" by simp
  then have n1: "\<not> ToNumber tw < Fin w1"
    using assms(1) less_Fin_mono by blast
  show ?thesis
  proof (cases "Fin w2 < ToNumber (overflowCharWidth g')")
    case True
    then have "Fin w1 < ToNumber (overflowCharWidth g')"
      using assms(1) by (rule Fin_less_mono)
    with True tw n1 n2 show ?thesis by (simp add: getFittedText_def)
  next
    case False
    show ?thesis
    proof (cases "Fin w1 < ToNumber (overflowCharWidth g')")
      case True
      with tw n1 show ?thesis by (simp add: getFittedText_def)
    next
      case w1: False
      from tw n1 n2 False w1 show ?thesis
        by (simp add: getFittedText_def getFittedText_loop_mono [OF assms(1)])
    qed
  qed
qed

theorem getFittedText_monotone_when_trimming_witness:
  "(30 :: real) \<le> 40
   \<and> \<not> ToNumber (fst (getTextWidth demo_graph demo_measureText ''abcdefgh'')) < Fin 40
   \<and> fst (getFittedText demo_graph demo_measureText ''abcdefgh'' (Fin 30)) = ''a...''
   \<and> fst (getFittedText demo_graph demo_measureText ''abcdefgh'' (Fin 40)) = ''abc...''
   \<and> length (fst (getFittedText demo_graph demo_measureText ''abcdefgh'' (Fin 30)))
       \<le> length (fst (getFittedText demo_graph demo_measureText ''abcdefgh'' (Fin 40)))"
proof -
  have h1: "(30 :: real) \<le> 40" by simp
  have n: "\<not> ToNumber (fst (getTextWidth demo_graph demo_measureText ''abcdefgh'')) < Fin 40"
    by code_simp
  then have h2: "\<not> ToNumber (fst (getTextWidth demo_graph demo_measureText ''abcdefgh'')) < Fin 40
              \<or> ToNumber (fst (getTextWidth demo_graph demo_measureText ''abcdefgh'')) < Fin 30"
    by (rule disjI1)
  have v1: "fst (getFittedText demo_graph demo_measureText ''abcdefgh'' (Fin 30)) = ''a...''"
    by code_simp
  have v2: "fst (getFittedText demo_graph demo_measureText ''abcdefgh'' (Fin 40)) = ''abc...''"
    by code_simp
  from getFittedText_monotone_when_trimming [OF h1 h2] h1 n v1 v2 show ?thesis by blast
qed


section \<open>The tick planner\<close>

text \<open>
  Whatever the step is, a 32-bit integer is below \<open>2^31\<close>: for a positive scale \<open>d\<close> with
  \<open>d * 2^31 \<le> spacingMin\<close> every round of the loop finds the scaled step too small, and
  the loop never returns.
\<close>

lemma findOptimalTickInterval_loop_small_scale:
  assumes d: "0 < d" and small: "d * 2 ^ 31 \<le> sm"
  shows "findOptimalTickInterval_loop (Fin d) sm t = None"
proof -
  have never: "\<not> (ds = Fin d \<and> s = sm)"
    if run: "findOptimalTickInterval_loop ds s w = Some y" for ds s w y
  proof (rule findOptimalTickInterval_loop.raw_induct
      [where P = "\<lambda>ds s w y. \<not> (ds = Fin d \<and> s = sm)", OF _ run])
    fix f :: "num \<Rightarrow> real \<Rightarrow> 32 word \<Rightarrow> num option"
    fix ds' s' w' y'
    assume IH: "\<And>a b c r. f a b c = Some r \<Longrightarrow> \<not> (a = Fin d \<and> b = sm)"
    assume step: "(let scaledStep = ds' * Fin (real_of_int (sint w'))
                   in if scaledStep < Fin s' then f ds' s' (push_bit 1 w')
                      else Some scaledStep) = Some y'"
    show "\<not> (ds' = Fin d \<and> s' = sm)"
    proof
      assume eq: "ds' = Fin d \<and> s' = sm"
      have "sint w' < 2 ^ 31" using sint_lt [of w'] by simp
      then have "real_of_int (sint w') < 2 ^ 31"
        by (metis of_int_less_iff of_int_numeral of_int_power)
      then have "d * real_of_int (sint w') < d * 2 ^ 31"
        using d by simp
      then have "d * real_of_int (sint w') < sm" using small by simp
      with eq step have "f (Fin d) sm (push_bit 1 w') = Some y'"
        by (simp add: Let_def)
      with IH show False by blast
    qed
  qed
  show ?thesis
  proof (cases "findOptimalTickInterval_loop (Fin d) sm t")
    case None
    then show ?thesis .
  next
    case (Some y)
    from never [OF Some] show ?thesis by simp
  qed
qed

text \<open>For a scale of 0 the planner returns 1 before it reaches the loop.\<close>

lemma findOptimalTickInterval_zero:
  "0 \<le> pixelRatio g \<Longrightarrow> findOptimalTickInterval g (Fin 0) = Some (Fin 1)"
  by (simp add: findOptimalTickInterval_def Let_def TIMELINE_TICKS_SPACING_MIN_def)

text \<open>A scale above the minimal spacing is returned as it is.\<close>

lemma findOptimalTickInterval_large:
  "TIMELINE_TICKS_SPACING_MIN * pixelRatio g < d \<Longrightarrow> findOptimalTickInterval g (Fin d) = Some (Fin d)"
  by (simp add: findOptimalTickInterval_def Let_def)

lemma demo_graph_pixelRatio: "pixelRatio demo_graph = 1"
  by code_simp

text \<open>
  C8. The specification asks that \<open>_findOptimalTickInterval\<close> returns for every scale
  \<open>\<ge> 0\<close>. At pixel ratio 1 and the scale \<open>2^-27\<close> (a canvas of 1000 pixels showing a
  window of about \<open>1.3 * 10^11\<close> time units) it does not return: the step, shifted as a
  32-bit integer, never makes the scaled step reach 75 and ends at 0.
\<close>

theorem findOptimalTickInterval_diverges:
  "findOptimalTickInterval demo_graph (Fin (1 / 2 ^ 27)) = None"
proof -
  have "findOptimalTickInterval_loop (Fin (1 / 2 ^ 27)) 75 t = None" for t
    by (rule findOptimalTickInterval_loop_small_scale) simp_all
  then show ?thesis
    by (simp add: findOptimalTickInterval_def Let_def TIMELINE_TICKS_SPACING_MIN_def
        demo_graph_pixelRatio)
qed


section \<open>Loading data and the idle pointer\<close>

text \<open>
  C9. \<open>setData\<close> on the empty list of layers gives the default selection: \<open>start = 0\<close>,
  \<open>end = 1000\<close>, \<open>maxHeight = 2000\<close>, \<open>offsetY = 0\<close>, and sets the dirty flag. \<open>setData\<close> has
  no failing branch.
\<close>

theorem setData_empty:
  "sel_start (selection (setData g [])) = Number (Fin 0)
   \<and> sel_end (selection (setData g [])) = Number (Fin 1000)
   \<and> maxHeight (selection (setData g [])) = Number (Fin 2000)
   \<and> offsetY (selection (setData g [])) = Number (Fin 0)
   \<and> shouldRedraw (setData g []) = True"
  by (simp add: setData_def js_or_def)

text \<open>The view range of the empty data is \<open>[null, null]\<close>.\<close>

lemma setData_empty_viewRange: "viewRange (setData g []) = Some (Null, Null)"
  by (simp add: setData_def)

text \<open>After a mouse-up, and in a fresh widget, no drag is in progress.\<close>

lemma onMouseUp_idle: "\<not> ne_null (originX (selectionDragger (onMouseUp g)))"
  by (simp add: onMouseUp_def)

text \<open>
  C10. A mouse-move while no drag is in progress (\<open>originX\<close> is \<open>null\<close> or undefined)
  changes nothing: not the window, not the vertical offset, not the dirty flag.
\<close>

theorem onMouseMove_idle:
  assumes "\<not> ne_null (originX (selectionDragger g))"
  shows "onMouseMove g e = Inr g"
  using assms by (simp add: onMouseMove_def Let_def)

theorem onMouseMove_idle_witness:
  "\<not> ne_null (originX (selectionDragger demo_released))
   \<and> onMouseMove demo_released \<lparr>clientX = 300, clientY = 50\<rparr> = Inr demo_released"
proof -
  have h: "\<not> ne_null (originX (selectionDragger demo_released))"
    by (simp add: demo_released_def onMouseUp_def)
  from onMouseMove_idle [OF h] h show ?thesis by simp
qed

end
